theory Spec2Isabelle
  imports Complex_Main "HOL-Library.Product_Lexorder"
begin

section \<open>Close-approach filters and the stream limiter\<close>

text \<open>
  A shallow embedding of \<^verbatim>\<open>filters.py\<close> (the \<^verbatim>\<open>AttributeFilter\<close> class, its ten
  subclasses, \<^verbatim>\<open>create_filters\<close> and \<^verbatim>\<open>limit\<close>) and of the ten one-class modules of the
  package \<^verbatim>\<open>filters/\<close>. Python objects become records, an exception becomes the left
  summand of a result, and the generator \<^verbatim>\<open>limit\<close> becomes a resumable step function over
  its frame.
\<close>

subsection \<open>Python values\<close>

text \<open>
  A calendar date is \<^verbatim>\<open>(year, month, day)\<close>; Python orders dates as it orders these
  triples, lexicographically. A Python \<^verbatim>\<open>float\<close> is taken as the real number it stands
  for: comparison and truthiness of floats depend on nothing else (NaN and the
  infinities are left out).
\<close>

type_synonym date = "nat \<times> nat \<times> nat"

datatype pyvalue = PyDate date | PyFloat real | PyBool bool

text \<open>
  The two exceptions of the model: the one \<^verbatim>\<open>filters.py\<close> declares and raises, and the
  \<^verbatim>\<open>TypeError\<close> Python raises when it orders values of unrelated types (a date with a
  number, a number with \<^verbatim>\<open>None\<close>).
\<close>

datatype error = UnsupportedCriterionError | TypeError

definition raises :: "error + 'a \<Rightarrow> bool" where
  "raises r = (case r of Inl e \<Rightarrow> True | Inr v \<Rightarrow> False)"

text \<open>\<^verbatim>\<open>bool\<close> is a subclass of \<^verbatim>\<open>int\<close>: in a comparison with a float it counts as 0 or 1.\<close>

fun as_number :: "pyvalue \<Rightarrow> real option" where
  "as_number (PyFloat x) = Some x"
| "as_number (PyBool b) = Some (if b then 1 else 0)"
| "as_number (PyDate d) = None"

text \<open>Truthiness, as \<^verbatim>\<open>if x:\<close> tests it on a value that is not \<^verbatim>\<open>None\<close>.\<close>

fun truthy :: "pyvalue \<Rightarrow> bool" where
  "truthy (PyDate d) = True"
| "truthy (PyFloat x) = (x \<noteq> 0)"
| "truthy (PyBool b) = b"

text \<open>
  The three comparators of the \<^verbatim>\<open>operator\<close> module that the filters use. Two dates
  compare as dates and two numbers as numbers; a date and a number are unequal under
  \<^verbatim>\<open>==\<close> and raise \<^verbatim>\<open>TypeError\<close> under \<^verbatim>\<open><=\<close> and \<^verbatim>\<open>>=\<close>.
\<close>

datatype operator = operator_eq | operator_le | operator_ge

fun compare_numbers :: "operator \<Rightarrow> real \<Rightarrow> real \<Rightarrow> bool" where
  "compare_numbers operator_eq x y = (x = y)"
| "compare_numbers operator_le x y = (x \<le> y)"
| "compare_numbers operator_ge x y = (x \<ge> y)"

fun apply_operator :: "operator \<Rightarrow> pyvalue \<Rightarrow> pyvalue \<Rightarrow> error + bool" where
  "apply_operator operator_eq (PyDate a) (PyDate b) = Inr (a = b)"
| "apply_operator operator_le (PyDate a) (PyDate b) = Inr (a \<le> b)"
| "apply_operator operator_ge (PyDate a) (PyDate b) = Inr (a \<ge> b)"
| "apply_operator opr a b =
     (case (as_number a, as_number b) of
        (Some x, Some y) \<Rightarrow> Inr (compare_numbers opr x y)
      | _ \<Rightarrow> (if opr = operator_eq then Inr False else Inl TypeError))"

subsection \<open>The records the filters read\<close>

text \<open>
  Modelled from the spec: \<^verbatim>\<open>models.CloseApproach\<close> and its \<^verbatim>\<open>neo\<close> are imported by
  \<^verbatim>\<open>filters.py\<close> and are not among the sources. The spec gives a record a \<^verbatim>\<open>time\<close> (a
  timestamp with an accessible calendar date), a real \<^verbatim>\<open>distance\<close>, a real
  \<^verbatim>\<open>velocity\<close> and a body with a real \<^verbatim>\<open>diameter\<close> and a boolean \<^verbatim>\<open>hazardous\<close>; the field
  names are those the accessors of \<^verbatim>\<open>filters.py\<close> read (\<^verbatim>\<open>approach.time.date()\<close>,
  \<^verbatim>\<open>approach.neo.diameter\<close>). A body whose diameter is unknown is left out: how the
  data model stores an unknown diameter is not in the sources.
\<close>

record datetime =
  date :: date
  seconds :: nat

record near_earth_object =
  diameter :: real
  hazardous :: bool

record close_approach =
  time :: datetime
  distance :: real
  velocity :: real
  neo :: near_earth_object

subsection \<open>AttributeFilter and its ten subclasses (filters.py)\<close>

text \<open>
  An object of the class hierarchy is its class together with the two attributes
  \<^verbatim>\<open>__init__\<close> stores, \<^verbatim>\<open>self.op\<close> and \<^verbatim>\<open>self.value\<close>. The class decides which \<^verbatim>\<open>get\<close> a
  call dispatches to.
\<close>

datatype filter_class =
    AttributeFilter_cls
  | DateFilter_cls
  | DiameterMaxFilter_cls
  | DiameterMinFilter_cls
  | DistanceMaxFilter_cls
  | DistanceMinFilter_cls
  | EndDateFilter_cls
  | HazardousFilter_cls
  | StartDateFilter_cls
  | VelocityMaxFilter_cls
  | VelocityMinFilter_cls

record attribute_filter =
  cls :: filter_class
  self_op :: operator
  self_value :: pyvalue

definition AttributeFilter :: "operator \<Rightarrow> pyvalue \<Rightarrow> attribute_filter" where
  "AttributeFilter opr v = \<lparr>cls = AttributeFilter_cls, self_op = opr, self_value = v\<rparr>"

text \<open>
  The class method \<^verbatim>\<open>get\<close>: the base class raises, every subclass overrides it with one
  attribute read.
\<close>

fun get :: "filter_class \<Rightarrow> close_approach \<Rightarrow> error + pyvalue" where
  "get AttributeFilter_cls approach = Inl UnsupportedCriterionError"
| "get DateFilter_cls approach = Inr (PyDate (date (time approach)))"
| "get DiameterMaxFilter_cls approach = Inr (PyFloat (diameter (neo approach)))"
| "get DiameterMinFilter_cls approach = Inr (PyFloat (diameter (neo approach)))"
| "get DistanceMaxFilter_cls approach = Inr (PyFloat (distance approach))"
| "get DistanceMinFilter_cls approach = Inr (PyFloat (distance approach))"
| "get EndDateFilter_cls approach = Inr (PyDate (date (time approach)))"
| "get HazardousFilter_cls approach = Inr (PyBool (hazardous (neo approach)))"
| "get StartDateFilter_cls approach = Inr (PyDate (date (time approach)))"
| "get VelocityMaxFilter_cls approach = Inr (PyFloat (velocity approach))"
| "get VelocityMinFilter_cls approach = Inr (PyFloat (velocity approach))"

text \<open>\<^verbatim>\<open>__call__\<close>: \<^verbatim>\<open>self.op(self.get(approach), self.value)\<close>.\<close>

definition call :: "attribute_filter \<Rightarrow> close_approach \<Rightarrow> error + bool" where
  "call self approach =
     (case get (cls self) approach of
        Inl e \<Rightarrow> Inl e
      | Inr attribute \<Rightarrow> apply_operator (self_op self) attribute (self_value self))"

text \<open>
  The constructors of the subclasses: each passes its comparator and its one argument
  to \<^verbatim>\<open>super().__init__\<close>. The argument has the type of the attribute the class reads.
\<close>

definition DateFilter :: "date \<Rightarrow> attribute_filter" where
  "DateFilter d = \<lparr>cls = DateFilter_cls, self_op = operator_eq, self_value = PyDate d\<rparr>"

definition DiameterMaxFilter :: "real \<Rightarrow> attribute_filter" where
  "DiameterMaxFilter x =
     \<lparr>cls = DiameterMaxFilter_cls, self_op = operator_le, self_value = PyFloat x\<rparr>"

definition DiameterMinFilter :: "real \<Rightarrow> attribute_filter" where
  "DiameterMinFilter x =
     \<lparr>cls = DiameterMinFilter_cls, self_op = operator_ge, self_value = PyFloat x\<rparr>"

definition DistanceMaxFilter :: "real \<Rightarrow> attribute_filter" where
  "DistanceMaxFilter x =
     \<lparr>cls = DistanceMaxFilter_cls, self_op = operator_le, self_value = PyFloat x\<rparr>"

definition DistanceMinFilter :: "real \<Rightarrow> attribute_filter" where
  "DistanceMinFilter x =
     \<lparr>cls = DistanceMinFilter_cls, self_op = operator_ge, self_value = PyFloat x\<rparr>"

definition EndDateFilter :: "date \<Rightarrow> attribute_filter" where
  "EndDateFilter d = \<lparr>cls = EndDateFilter_cls, self_op = operator_le, self_value = PyDate d\<rparr>"

definition HazardousFilter :: "bool \<Rightarrow> attribute_filter" where
  "HazardousFilter b =
     \<lparr>cls = HazardousFilter_cls, self_op = operator_eq, self_value = PyBool b\<rparr>"

definition StartDateFilter :: "date \<Rightarrow> attribute_filter" where
  "StartDateFilter d =
     \<lparr>cls = StartDateFilter_cls, self_op = operator_ge, self_value = PyDate d\<rparr>"

definition VelocityMaxFilter :: "real \<Rightarrow> attribute_filter" where
  "VelocityMaxFilter x =
     \<lparr>cls = VelocityMaxFilter_cls, self_op = operator_le, self_value = PyFloat x\<rparr>"

definition VelocityMinFilter :: "real \<Rightarrow> attribute_filter" where
  "VelocityMinFilter x =
     \<lparr>cls = VelocityMinFilter_cls, self_op = operator_ge, self_value = PyFloat x\<rparr>"

subsection \<open>create\_filters\<close>

text \<open>
  The ten keyword arguments, each \<^verbatim>\<open>None\<close> or a value of its type, in the order of the
  signature. The first nine are tested for truthiness (\<^verbatim>\<open>if date:\<close>, where \<^verbatim>\<open>None\<close> is
  false), the last with \<^verbatim>\<open>is not None\<close>; \<^verbatim>\<open>filters\<close> is the list the function appends to.
  (The arguments \<^verbatim>\<open>date\<close> and \<^verbatim>\<open>hazardous\<close> are primed here: the plain names are the
  record fields above.)
\<close>

definition create_filters ::
  "date option \<Rightarrow> date option \<Rightarrow> date option \<Rightarrow> real option \<Rightarrow> real option \<Rightarrow>
   real option \<Rightarrow> real option \<Rightarrow> real option \<Rightarrow> real option \<Rightarrow> bool option \<Rightarrow>
   attribute_filter list" where
  "create_filters date' start_date end_date distance_min distance_max
       velocity_min velocity_max diameter_min diameter_max hazardous' =
     (let filters = [];
          filters = (case date' of None \<Rightarrow> filters
            | Some v \<Rightarrow> if truthy (PyDate v) then filters @ [DateFilter v] else filters);
          filters = (case start_date of None \<Rightarrow> filters
            | Some v \<Rightarrow> if truthy (PyDate v) then filters @ [StartDateFilter v] else filters);
          filters = (case end_date of None \<Rightarrow> filters
            | Some v \<Rightarrow> if truthy (PyDate v) then filters @ [EndDateFilter v] else filters);
          filters = (case distance_min of None \<Rightarrow> filters
            | Some v \<Rightarrow> if truthy (PyFloat v) then filters @ [DistanceMinFilter v] else filters);
          filters = (case distance_max of None \<Rightarrow> filters
            | Some v \<Rightarrow> if truthy (PyFloat v) then filters @ [DistanceMaxFilter v] else filters);
          filters = (case velocity_min of None \<Rightarrow> filters
            | Some v \<Rightarrow> if truthy (PyFloat v) then filters @ [VelocityMinFilter v] else filters);
          filters = (case velocity_max of None \<Rightarrow> filters
            | Some v \<Rightarrow> if truthy (PyFloat v) then filters @ [VelocityMaxFilter v] else filters);
          filters = (case diameter_min of None \<Rightarrow> filters
            | Some v \<Rightarrow> if truthy (PyFloat v) then filters @ [DiameterMinFilter v] else filters);
          filters = (case diameter_max of None \<Rightarrow> filters
            | Some v \<Rightarrow> if truthy (PyFloat v) then filters @ [DiameterMaxFilter v] else filters);
          filters = (case hazardous' of None \<Rightarrow> filters
            | Some v \<Rightarrow> filters @ [HazardousFilter v])
      in filters)"

text \<open>
  Modelled from the spec: the query engine that evaluates a filter collection is not
  among the sources. The spec has it accept a record only if every predicate of the
  collection returns true, an empty collection accepting every record; an exception of
  a predicate propagates.
\<close>

fun accepts :: "attribute_filter list \<Rightarrow> close_approach \<Rightarrow> error + bool" where
  "accepts [] approach = Inr True"
| "accepts (f # fs) approach =
     (case call f approach of
        Inl e \<Rightarrow> Inl e
      | Inr b \<Rightarrow> (if b then accepts fs approach else Inr False))"

subsection \<open>The same ten classes in the package filters/\<close>

text \<open>
  Each module \<^verbatim>\<open>filters/<Name>.py\<close> declares one subclass, with its own \<^verbatim>\<open>__init__\<close> and
  its own \<^verbatim>\<open>get\<close>. The primed names are the package's; an object is again its class with
  the comparator and the reference value that \<^verbatim>\<open>__init__\<close> hands to its base class.
\<close>

definition DateFilter' :: "date \<Rightarrow> attribute_filter" where
  "DateFilter' d = \<lparr>cls = DateFilter_cls, self_op = operator_eq, self_value = PyDate d\<rparr>"

definition DiameterMaxFilter' :: "real \<Rightarrow> attribute_filter" where
  "DiameterMaxFilter' x =
     \<lparr>cls = DiameterMaxFilter_cls, self_op = operator_le, self_value = PyFloat x\<rparr>"

definition DiameterMinFilter' :: "real \<Rightarrow> attribute_filter" where
  "DiameterMinFilter' x =
     \<lparr>cls = DiameterMinFilter_cls, self_op = operator_ge, self_value = PyFloat x\<rparr>"

definition DistanceMaxFilter' :: "real \<Rightarrow> attribute_filter" where
  "DistanceMaxFilter' x =
     \<lparr>cls = DistanceMaxFilter_cls, self_op = operator_le, self_value = PyFloat x\<rparr>"

definition DistanceMinFilter' :: "real \<Rightarrow> attribute_filter" where
  "DistanceMinFilter' x =
     \<lparr>cls = DistanceMinFilter_cls, self_op = operator_ge, self_value = PyFloat x\<rparr>"

definition EndDateFilter' :: "date \<Rightarrow> attribute_filter" where
  "EndDateFilter' d = \<lparr>cls = EndDateFilter_cls, self_op = operator_le, self_value = PyDate d\<rparr>"

definition HazardousFilter' :: "bool \<Rightarrow> attribute_filter" where
  "HazardousFilter' b =
     \<lparr>cls = HazardousFilter_cls, self_op = operator_eq, self_value = PyBool b\<rparr>"

definition StartDateFilter' :: "date \<Rightarrow> attribute_filter" where
  "StartDateFilter' d =
     \<lparr>cls = StartDateFilter_cls, self_op = operator_ge, self_value = PyDate d\<rparr>"

definition VelocityMaxFilter' :: "real \<Rightarrow> attribute_filter" where
  "VelocityMaxFilter' x =
     \<lparr>cls = VelocityMaxFilter_cls, self_op = operator_le, self_value = PyFloat x\<rparr>"

definition VelocityMinFilter' :: "real \<Rightarrow> attribute_filter" where
  "VelocityMinFilter' x =
     \<lparr>cls = VelocityMinFilter_cls, self_op = operator_ge, self_value = PyFloat x\<rparr>"

text \<open>
  Modelled from the spec: the base class of the package (\<^verbatim>\<open>filters/AttributeFilter.py\<close>,
  which the ten modules import) is not among the sources. The spec gives the
  abstraction one behaviour: invoked on a record it computes
  \<^verbatim>\<open>accessor(record) OP value\<close>, and with no accessor supplied it fails with the
  unsupported-criterion error. The first equation of \<open>get'\<close> and the definition of
  \<open>call'\<close> are that base class; the other ten equations of \<open>get'\<close> are the \<^verbatim>\<open>get\<close> methods
  of the ten modules.
\<close>

fun get' :: "filter_class \<Rightarrow> close_approach \<Rightarrow> error + pyvalue" where
  "get' AttributeFilter_cls approach = Inl UnsupportedCriterionError"
| "get' DateFilter_cls approach = Inr (PyDate (date (time approach)))"
| "get' DiameterMaxFilter_cls approach = Inr (PyFloat (diameter (neo approach)))"
| "get' DiameterMinFilter_cls approach = Inr (PyFloat (diameter (neo approach)))"
| "get' DistanceMaxFilter_cls approach = Inr (PyFloat (distance approach))"
| "get' DistanceMinFilter_cls approach = Inr (PyFloat (distance approach))"
| "get' EndDateFilter_cls approach = Inr (PyDate (date (time approach)))"
| "get' HazardousFilter_cls approach = Inr (PyBool (hazardous (neo approach)))"
| "get' StartDateFilter_cls approach = Inr (PyDate (date (time approach)))"
| "get' VelocityMaxFilter_cls approach = Inr (PyFloat (velocity approach))"
| "get' VelocityMinFilter_cls approach = Inr (PyFloat (velocity approach))"

definition call' :: "attribute_filter \<Rightarrow> close_approach \<Rightarrow> error + bool" where
  "call' self approach =
     (case get' (cls self) approach of
        Inl e \<Rightarrow> Inl e
      | Inr attribute \<Rightarrow> apply_operator (self_op self) attribute (self_value self))"

subsection \<open>limit\<close>

text \<open>
  \<^verbatim>\<open>n\<close> is \<^verbatim>\<open>None\<close> or an integer. The two comparisons of the \<^verbatim>\<open>elif\<close> raise
  \<^verbatim>\<open>TypeError\<close> on \<^verbatim>\<open>None\<close>, as Python's do; \<^verbatim>\<open>n == 0\<close> and \<^verbatim>\<open>n is None\<close> never raise.
\<close>

fun py_lt :: "int \<Rightarrow> int option \<Rightarrow> error + bool" where
  "py_lt i None = Inl TypeError"
| "py_lt i (Some m) = Inr (i < m)"

fun py_gt :: "int option \<Rightarrow> int \<Rightarrow> error + bool" where
  "py_gt None j = Inl TypeError"
| "py_gt (Some m) j = Inr (m > j)"

text \<open>
  The body of the loop for one pair \<^verbatim>\<open>(index, value)\<close>: whether it yields the value.
  \<^verbatim>\<open>or\<close> and \<^verbatim>\<open>and\<close> evaluate their right operand only when the left one does not decide.
\<close>

definition limit_yields :: "int option \<Rightarrow> int \<Rightarrow> error + bool" where
  "limit_yields n index =
     (if n = Some 0 \<or> n = None then Inr True
      else (case py_lt index n of
              Inl e \<Rightarrow> Inl e
            | Inr b \<Rightarrow> (if b then py_gt n 0 else Inr False)))"

text \<open>
  \<^verbatim>\<open>limit\<close> is a generator: calling it runs nothing, and each \<^verbatim>\<open>next\<close> of the caller
  resumes the loop until the next \<^verbatim>\<open>yield\<close> or the end of the loop. The suspended frame is
  the counter of \<^verbatim>\<open>enumerate\<close> and the input iterator, here the finite list of the elements
  it has not handed out yet (the spec asks \<^verbatim>\<open>limit\<close> to work on any finite sequence). One
  resumption returns the value yielded (\<open>None\<close> when the generator is exhausted) and the
  frame it leaves: every element the loop pulls, yielded or skipped, is gone from the
  input.
\<close>

fun limit_next :: "int option \<Rightarrow> int \<Rightarrow> 'a list \<Rightarrow> error + ('a option \<times> int \<times> 'a list)" where
  "limit_next n index [] = Inr (None, index, [])"
| "limit_next n index (value # iterator) =
     (case limit_yields n index of
        Inl e \<Rightarrow> Inl e
      | Inr b \<Rightarrow> (if b then Inr (Some value, index + 1, iterator)
                 else limit_next n (index + 1) iterator))"

text \<open>A resumption that yields has pulled at least the element it yields.\<close>

lemma limit_next_shorter:
  "limit_next n index iterator = Inr (Some v, index', iterator') \<Longrightarrow>
   length iterator' < length iterator"
proof (induction iterator arbitrary: index)
  case Nil
  then show ?case by simp
next
  case (Cons x xs)
  show ?case
  proof (cases "limit_yields n index = Inr False")
    case True
    with Cons.prems have "limit_next n (index + 1) xs = Inr (Some v, index', iterator')"
      by simp
    from Cons.IH [OF this] show ?thesis by simp
  next
    case False
    with Cons.prems show ?thesis
      by (auto split: sum.splits if_splits)
  qed
qed

text \<open>
  A caller that iterates the generator to its end (\<^verbatim>\<open>list(limit(iterator, n))\<close>, a
  \<^verbatim>\<open>for\<close> loop): the values it receives, and the frame the generator ends in.
\<close>

function exhaust :: "int option \<Rightarrow> int \<Rightarrow> 'a list \<Rightarrow> error + ('a list \<times> int \<times> 'a list)" where
  "exhaust n index iterator =
     (case limit_next n index iterator of
        Inl e \<Rightarrow> Inl e
      | Inr (None, index', iterator') \<Rightarrow> Inr ([], index', iterator')
      | Inr (Some value, index', iterator') \<Rightarrow>
          (case exhaust n index' iterator' of
             Inl e \<Rightarrow> Inl e
           | Inr (values, index'', iterator'') \<Rightarrow> Inr (value # values, index'', iterator'')))"
  by pat_completeness auto
termination
  by (relation "measure (\<lambda>(n, index, iterator). length iterator)")
     (auto dest: limit_next_shorter)

declare exhaust.simps [simp del]

text \<open>A caller that asks for at most \<open>k\<close> values and then leaves the generator suspended.\<close>

fun request :: "nat \<Rightarrow> int option \<Rightarrow> int \<Rightarrow> 'a list \<Rightarrow> error + ('a list \<times> int \<times> 'a list)" where
  "request 0 n index iterator = Inr ([], index, iterator)"
| "request (Suc k) n index iterator =
     (case limit_next n index iterator of
        Inl e \<Rightarrow> Inl e
      | Inr (None, index', iterator') \<Rightarrow> Inr ([], index', iterator')
      | Inr (Some value, index', iterator') \<Rightarrow>
          (case request k n index' iterator' of
             Inl e \<Rightarrow> Inl e
           | Inr (values, index'', iterator'') \<Rightarrow> Inr (value # values, index'', iterator'')))"

text \<open>\<^verbatim>\<open>limit(iterator, n)\<close> as a sequence: what it yields, from a fresh frame, to its end.\<close>

definition limit :: "'a list \<Rightarrow> int option \<Rightarrow> error + 'a list" where
  "limit iterator n =
     (case exhaust n 0 iterator of
        Inl e \<Rightarrow> Inl e
      | Inr (values, index, iterator') \<Rightarrow> Inr values)"

section \<open>Properties\<close>

subsection \<open>What a call of each subclass computes\<close>

lemma raises_Inr: "\<not> raises (Inr v)"
  by (simp add: raises_def)

lemma call_DateFilter: "call (DateFilter d) a = Inr (date (time a) = d)"
  by (simp add: call_def DateFilter_def)

lemma call_StartDateFilter: "call (StartDateFilter d) a = Inr (date (time a) \<ge> d)"
  by (simp add: call_def StartDateFilter_def)

lemma call_EndDateFilter: "call (EndDateFilter d) a = Inr (date (time a) \<le> d)"
  by (simp add: call_def EndDateFilter_def)

lemma call_DistanceMinFilter: "call (DistanceMinFilter x) a = Inr (distance a \<ge> x)"
  by (simp add: call_def DistanceMinFilter_def)

lemma call_DistanceMaxFilter: "call (DistanceMaxFilter x) a = Inr (distance a \<le> x)"
  by (simp add: call_def DistanceMaxFilter_def)

lemma call_VelocityMinFilter: "call (VelocityMinFilter x) a = Inr (velocity a \<ge> x)"
  by (simp add: call_def VelocityMinFilter_def)

lemma call_VelocityMaxFilter: "call (VelocityMaxFilter x) a = Inr (velocity a \<le> x)"
  by (simp add: call_def VelocityMaxFilter_def)

lemma call_DiameterMinFilter: "call (DiameterMinFilter x) a = Inr (diameter (neo a) \<ge> x)"
  by (simp add: call_def DiameterMinFilter_def)

lemma call_DiameterMaxFilter: "call (DiameterMaxFilter x) a = Inr (diameter (neo a) \<le> x)"
  by (simp add: call_def DiameterMaxFilter_def)

lemma call_HazardousFilter: "call (HazardousFilter b) a = Inr (hazardous (neo a) = b)"
  by (simp add: call_def HazardousFilter_def)

lemmas call_subclass =
  call_DateFilter call_StartDateFilter call_EndDateFilter call_DistanceMinFilter
  call_DistanceMaxFilter call_VelocityMinFilter call_VelocityMaxFilter
  call_DiameterMinFilter call_DiameterMaxFilter call_HazardousFilter

lemma append_when:
  "(case x of None \<Rightarrow> fs | Some v \<Rightarrow> if P v then fs @ [F v] else fs) =
   fs @ (case x of None \<Rightarrow> [] | Some v \<Rightarrow> if P v then [F v] else [])"
  by (cases x) simp_all

lemma append_present:
  "(case x of None \<Rightarrow> fs | Some v \<Rightarrow> fs @ [F v]) =
   fs @ (case x of None \<Rightarrow> [] | Some v \<Rightarrow> [F v])"
  by (cases x) simp_all

lemma create_filters_concat:
  "create_filters date' start_date end_date distance_min distance_max
       velocity_min velocity_max diameter_min diameter_max hazardous' =
     (case date' of None \<Rightarrow> [] | Some v \<Rightarrow> [DateFilter v]) @
     (case start_date of None \<Rightarrow> [] | Some v \<Rightarrow> [StartDateFilter v]) @
     (case end_date of None \<Rightarrow> [] | Some v \<Rightarrow> [EndDateFilter v]) @
     (case distance_min of None \<Rightarrow> [] | Some v \<Rightarrow> if v \<noteq> 0 then [DistanceMinFilter v] else []) @
     (case distance_max of None \<Rightarrow> [] | Some v \<Rightarrow> if v \<noteq> 0 then [DistanceMaxFilter v] else []) @
     (case velocity_min of None \<Rightarrow> [] | Some v \<Rightarrow> if v \<noteq> 0 then [VelocityMinFilter v] else []) @
     (case velocity_max of None \<Rightarrow> [] | Some v \<Rightarrow> if v \<noteq> 0 then [VelocityMaxFilter v] else []) @
     (case diameter_min of None \<Rightarrow> [] | Some v \<Rightarrow> if v \<noteq> 0 then [DiameterMinFilter v] else []) @
     (case diameter_max of None \<Rightarrow> [] | Some v \<Rightarrow> if v \<noteq> 0 then [DiameterMaxFilter v] else []) @
     (case hazardous' of None \<Rightarrow> [] | Some v \<Rightarrow> [HazardousFilter v])"
  unfolding create_filters_def
  by (simp only: Let_def append_when append_present append_Nil append_assoc truthy.simps if_True)

lemma list_all_when:
  assumes "\<And>v. P (F v)"
  shows "list_all P (case x of None \<Rightarrow> [] | Some v \<Rightarrow> if c v then [F v] else [])"
  using assms by (cases x) simp_all

lemma list_all_present:
  assumes "\<And>v. P (F v)"
  shows "list_all P (case x of None \<Rightarrow> [] | Some v \<Rightarrow> [F v])"
  using assms by (cases x) simp_all

lemma created_filters_return:
  "list_all (\<lambda>f. \<not> raises (call f a))
     (create_filters date' start_date end_date distance_min distance_max
        velocity_min velocity_max diameter_min diameter_max hazardous')"
  by (simp add: create_filters_concat list_all_when list_all_present call_subclass raises_Inr)

subsection \<open>What the generator yields and what it pulls\<close>

text \<open>
  The positions at which the loop body yields: everywhere when \<^verbatim>\<open>n\<close> is \<^verbatim>\<open>None\<close> or 0,
  below \<^verbatim>\<open>n\<close> when \<^verbatim>\<open>n\<close> is positive, nowhere when it is negative.
\<close>

lemma limit_yields_None: "limit_yields None index = Inr True"
  by (simp add: limit_yields_def)

lemma limit_yields_Some: "limit_yields (Some m) index = Inr (m = 0 \<or> (index < m \<and> 0 < m))"
  by (simp add: limit_yields_def)

lemma exhaust_Nil: "exhaust n index [] = Inr ([], index, [])"
  by (simp add: exhaust.simps)

lemma exhaust_Cons_yield:
  assumes "limit_yields n index = Inr True"
  shows "exhaust n index (v # vs) =
           (case exhaust n (index + 1) vs of
              Inl e \<Rightarrow> Inl e
            | Inr (out, index', rest) \<Rightarrow> Inr (v # out, index', rest))"
  using assms by (subst exhaust.simps) simp

lemma exhaust_Cons_skip:
  assumes "limit_yields n index = Inr False"
  shows "exhaust n index (v # vs) = exhaust n (index + 1) vs"
proof -
  have "limit_next n index (v # vs) = limit_next n (index + 1) vs"
    using assms by simp
  then show ?thesis
    by (simp add: exhaust.simps [of n index "v # vs"] exhaust.simps [of n "index + 1" vs])
qed

lemma exhaust_unlimited:
  assumes "n = None \<or> n = Some 0"
  shows "exhaust n index xs = Inr (xs, index + int (length xs), [])"
proof (induction xs arbitrary: index)
  case Nil
  show ?case by (simp add: exhaust_Nil)
next
  case (Cons x xs)
  have "limit_yields n index = Inr True"
    using assms by (auto simp: limit_yields_def)
  then show ?case
    by (simp add: exhaust_Cons_yield Cons.IH)
qed

lemma exhaust_positive:
  assumes "0 < m"
  shows "exhaust (Some m) index xs = Inr (take (nat (m - index)) xs, index + int (length xs), [])"
proof (induction xs arbitrary: index)
  case Nil
  show ?case by (simp add: exhaust_Nil)
next
  case (Cons x xs)
  show ?case
  proof (cases "index < m")
    case True
    then have y: "limit_yields (Some m) index = Inr True"
      using assms by (simp add: limit_yields_Some)
    from True have "nat (m - index) = Suc (nat (m - (index + 1)))"
      by simp
    then show ?thesis
      by (simp add: exhaust_Cons_yield [OF y] Cons.IH)
  next
    case False
    then have y: "limit_yields (Some m) index = Inr False"
      using assms by (simp add: limit_yields_Some)
    from False show ?thesis
      by (simp add: exhaust_Cons_skip [OF y] Cons.IH)
  qed
qed

lemma exhaust_negative:
  assumes "m < 0"
  shows "exhaust (Some m) index xs = Inr ([], index + int (length xs), [])"
proof (induction xs arbitrary: index)
  case Nil
  show ?case by (simp add: exhaust_Nil)
next
  case (Cons x xs)
  have y: "limit_yields (Some m) index = Inr False"
    using assms by (simp add: limit_yields_Some)
  show ?case
    by (simp add: exhaust_Cons_skip [OF y] Cons.IH)
qed

lemma request_within_limit:
  assumes "0 \<le> index" and "index + int k \<le> m"
  shows "request k (Some m) index xs =
           Inr (take k xs, index + int (min k (length xs)), drop k xs)"
  using assms
proof (induction k arbitrary: index xs)
  case 0
  show ?case by simp
next
  case (Suc k)
  show ?case
  proof (cases xs)
    case Nil
    then show ?thesis by simp
  next
    case (Cons x xs')
    from Suc.prems have y: "limit_yields (Some m) index = Inr True"
      by (auto simp: limit_yields_Some)
    from Suc.prems have "0 \<le> index + 1" and "index + 1 + int k \<le> m" by simp_all
    from Suc.IH [OF this, of xs'] show ?thesis
      using Cons y by simp
  qed
qed

lemma limit_next_returns: "\<not> raises (limit_next n index xs)"
proof (induction xs arbitrary: index)
  case Nil
  show ?case by (simp add: raises_def)
next
  case (Cons x xs)
  show ?case
  proof (cases n)
    case None
    then show ?thesis by (simp add: limit_yields_None raises_def)
  next
    case (Some m)
    with Cons.IH [of "index + 1"] show ?thesis
      by (simp add: limit_yields_Some raises_def)
  qed
qed

lemma exhaust_returns: "\<not> raises (exhaust n index xs)"
proof (cases n)
  case None
  then show ?thesis by (simp add: exhaust_unlimited raises_def)
next
  case (Some m)
  consider "m = 0" | "0 < m" | "m < 0" by linarith
  then show ?thesis
  proof cases
    case 1
    with Some show ?thesis by (simp add: exhaust_unlimited raises_def)
  next
    case 2
    with Some show ?thesis by (simp add: exhaust_positive raises_def)
  next
    case 3
    with Some show ?thesis by (simp add: exhaust_negative raises_def)
  qed
qed

section \<open>The claims\<close>

subsection \<open>The predicates\<close>

text \<open>
  C3. On every record and for every reference value, each of the four "min" predicates
  (\<^verbatim>\<open>StartDateFilter\<close>, \<^verbatim>\<open>DistanceMinFilter\<close>, \<^verbatim>\<open>VelocityMinFilter\<close>,
  \<^verbatim>\<open>DiameterMinFilter\<close>) returns whether the attribute it reads is at least the reference
  value, each of the four "max" predicates (\<^verbatim>\<open>EndDateFilter\<close>, \<^verbatim>\<open>DistanceMaxFilter\<close>,
  \<^verbatim>\<open>VelocityMaxFilter\<close>, \<^verbatim>\<open>DiameterMaxFilter\<close>) whether it is at most the reference value,
  and \<^verbatim>\<open>DateFilter\<close> and \<^verbatim>\<open>HazardousFilter\<close> whether it equals the reference value. The
  attribute read is the date of the record's time, its distance, its velocity, the
  diameter of its body or the hazard flag of its body.
\<close>

theorem predicates_compare_accessed_attribute:
  "call (StartDateFilter d) a = Inr (date (time a) \<ge> d) \<and>
   call (DistanceMinFilter x) a = Inr (distance a \<ge> x) \<and>
   call (VelocityMinFilter x) a = Inr (velocity a \<ge> x) \<and>
   call (DiameterMinFilter x) a = Inr (diameter (neo a) \<ge> x) \<and>
   call (EndDateFilter d) a = Inr (date (time a) \<le> d) \<and>
   call (DistanceMaxFilter x) a = Inr (distance a \<le> x) \<and>
   call (VelocityMaxFilter x) a = Inr (velocity a \<le> x) \<and>
   call (DiameterMaxFilter x) a = Inr (diameter (neo a) \<le> x) \<and>
   call (DateFilter d) a = Inr (date (time a) = d) \<and>
   call (HazardousFilter b) a = Inr (hazardous (neo a) = b)"
  by (simp only: call_subclass simp_thms)

text \<open>
  C8. A call of the base class \<^verbatim>\<open>AttributeFilter\<close>, whatever its comparator and reference
  value, raises \<^verbatim>\<open>UnsupportedCriterionError\<close> on every record. Nothing else raises: a call
  of each of the ten subclasses returns on every record, so does every predicate that
  \<^verbatim>\<open>create_filters\<close> returns, for every combination of criteria, and \<^verbatim>\<open>limit\<close> returns at
  every resumption and as a whole for every \<^verbatim>\<open>n\<close>, absent, zero, positive or negative
  (the \<^verbatim>\<open>TypeError\<close> of comparing with \<^verbatim>\<open>None\<close> is never reached).
\<close>

theorem only_the_base_class_raises:
  "call (AttributeFilter opr v) a = Inl UnsupportedCriterionError \<and>
   \<not> raises (call (DateFilter d) a) \<and>
   \<not> raises (call (StartDateFilter d) a) \<and>
   \<not> raises (call (EndDateFilter d) a) \<and>
   \<not> raises (call (DistanceMinFilter x) a) \<and>
   \<not> raises (call (DistanceMaxFilter x) a) \<and>
   \<not> raises (call (VelocityMinFilter x) a) \<and>
   \<not> raises (call (VelocityMaxFilter x) a) \<and>
   \<not> raises (call (DiameterMinFilter x) a) \<and>
   \<not> raises (call (DiameterMaxFilter x) a) \<and>
   \<not> raises (call (HazardousFilter b) a) \<and>
   list_all (\<lambda>f. \<not> raises (call f a))
     (create_filters date' start_date end_date distance_min distance_max
        velocity_min velocity_max diameter_min diameter_max hazardous') \<and>
   \<not> raises (limit_next n index xs) \<and>
   \<not> raises (exhaust n index xs) \<and>
   \<not> raises (limit xs n)"
proof -
  have base: "call (AttributeFilter opr v) a = Inl UnsupportedCriterionError"
    by (simp add: call_def AttributeFilter_def)
  have lim: "\<not> raises (limit xs n)"
    using exhaust_returns [of n 0 xs]
    by (simp add: limit_def raises_def split: sum.splits prod.splits)
  show ?thesis
    by (simp only: base call_subclass raises_Inr created_filters_return limit_next_returns
        exhaust_returns lim simp_thms)
qed

text \<open>
  C9. Each of the ten classes of the package \<^verbatim>\<open>filters/\<close> agrees with the class of the
  same name in \<^verbatim>\<open>filters.py\<close>: built from the same reference value the two objects hold
  the same comparator and the same value, their \<^verbatim>\<open>get\<close> methods read the same attribute,
  and the two calls return the same result on every record.
\<close>

theorem package_classes_agree:
  "(DateFilter' d = DateFilter d \<and> get' DateFilter_cls a = get DateFilter_cls a
      \<and> call' (DateFilter' d) a = call (DateFilter d) a) \<and>
   (StartDateFilter' d = StartDateFilter d \<and> get' StartDateFilter_cls a = get StartDateFilter_cls a
      \<and> call' (StartDateFilter' d) a = call (StartDateFilter d) a) \<and>
   (EndDateFilter' d = EndDateFilter d \<and> get' EndDateFilter_cls a = get EndDateFilter_cls a
      \<and> call' (EndDateFilter' d) a = call (EndDateFilter d) a) \<and>
   (DistanceMinFilter' x = DistanceMinFilter x
      \<and> get' DistanceMinFilter_cls a = get DistanceMinFilter_cls a
      \<and> call' (DistanceMinFilter' x) a = call (DistanceMinFilter x) a) \<and>
   (DistanceMaxFilter' x = DistanceMaxFilter x
      \<and> get' DistanceMaxFilter_cls a = get DistanceMaxFilter_cls a
      \<and> call' (DistanceMaxFilter' x) a = call (DistanceMaxFilter x) a) \<and>
   (VelocityMinFilter' x = VelocityMinFilter x
      \<and> get' VelocityMinFilter_cls a = get VelocityMinFilter_cls a
      \<and> call' (VelocityMinFilter' x) a = call (VelocityMinFilter x) a) \<and>
   (VelocityMaxFilter' x = VelocityMaxFilter x
      \<and> get' VelocityMaxFilter_cls a = get VelocityMaxFilter_cls a
      \<and> call' (VelocityMaxFilter' x) a = call (VelocityMaxFilter x) a) \<and>
   (DiameterMinFilter' x = DiameterMinFilter x
      \<and> get' DiameterMinFilter_cls a = get DiameterMinFilter_cls a
      \<and> call' (DiameterMinFilter' x) a = call (DiameterMinFilter x) a) \<and>
   (DiameterMaxFilter' x = DiameterMaxFilter x
      \<and> get' DiameterMaxFilter_cls a = get DiameterMaxFilter_cls a
      \<and> call' (DiameterMaxFilter' x) a = call (DiameterMaxFilter x) a) \<and>
   (HazardousFilter' b = HazardousFilter b
      \<and> get' HazardousFilter_cls a = get HazardousFilter_cls a
      \<and> call' (HazardousFilter' b) a = call (HazardousFilter b) a)"
  by (simp add: call_def call'_def
      DateFilter_def StartDateFilter_def EndDateFilter_def DistanceMinFilter_def
      DistanceMaxFilter_def VelocityMinFilter_def VelocityMaxFilter_def DiameterMinFilter_def
      DiameterMaxFilter_def HazardousFilter_def
      DateFilter'_def StartDateFilter'_def EndDateFilter'_def DistanceMinFilter'_def
      DistanceMaxFilter'_def VelocityMinFilter'_def VelocityMaxFilter'_def DiameterMinFilter'_def
      DiameterMaxFilter'_def HazardousFilter'_def)

subsection \<open>The factory\<close>

text \<open>
  C1. The claim is that \<^verbatim>\<open>create_filters\<close> builds one predicate for every criterion that is
  not \<^verbatim>\<open>None\<close>, a numeric bound of 0 included. The code tests the numeric bounds for
  truthiness: \<^verbatim>\<open>create_filters(distance_min=0.0)\<close> returns the empty collection, where
  \<^verbatim>\<open>create_filters(distance_min=1.0)\<close> returns the one \<^verbatim>\<open>DistanceMinFilter\<close>.
\<close>

theorem create_filters_drops_zero_bound:
  "create_filters None None None (Some 0) None None None None None None = [] \<and>
   create_filters None None None (Some 1) None None None None None None = [DistanceMinFilter 1]"
  by (simp add: create_filters_def)

text \<open>
  C7. With every criterion absent \<^verbatim>\<open>create_filters\<close> returns the empty collection, and the
  empty collection accepts every record.
\<close>

theorem no_criteria_no_filters:
  "create_filters None None None None None None None None None None = [] \<and>
   accepts [] a = Inr True \<and>
   accepts (create_filters None None None None None None None None None None) a = Inr True"
  by (simp add: create_filters_def)

text \<open>
  C4. \<^verbatim>\<open>create_filters(hazardous=False)\<close> returns exactly one predicate,
  \<^verbatim>\<open>HazardousFilter(False)\<close>, which returns true on a record exactly when the record's body
  is not hazardous; the collection accepts exactly those records. It is not the output
  of \<^verbatim>\<open>create_filters()\<close>, which is empty and accepts every record, hazardous or not.
\<close>

theorem hazardous_False_is_a_criterion:
  "create_filters None None None None None None None None None (Some False)
     = [HazardousFilter False] \<and>
   call (HazardousFilter False) a = Inr (\<not> hazardous (neo a)) \<and>
   accepts (create_filters None None None None None None None None None (Some False)) a
     = Inr (\<not> hazardous (neo a)) \<and>
   create_filters None None None None None None None None None None = [] \<and>
   accepts (create_filters None None None None None None None None None None) a = Inr True \<and>
   create_filters None None None None None None None None None (Some False)
     \<noteq> create_filters None None None None None None None None None None"
  by (simp add: create_filters_def call_HazardousFilter)

subsection \<open>The limiter\<close>

text \<open>
  C5. With \<^verbatim>\<open>n\<close> absent or zero, \<^verbatim>\<open>limit\<close> yields every element of its input, unchanged
  and in the original order.
\<close>

theorem limit_None_or_zero_is_identity:
  "limit xs None = Inr xs \<and> limit xs (Some 0) = Inr xs"
  by (simp add: limit_def exhaust_unlimited)

text \<open>
  C6. With \<^verbatim>\<open>n\<close> positive, \<^verbatim>\<open>limit\<close> yields the first \<open>min n (length xs)\<close> elements of
  its input \<open>xs\<close>, unchanged and in the original order, and returns normally: an input
  shorter than \<^verbatim>\<open>n\<close> comes out whole, with nothing added.
\<close>

theorem limit_positive_is_prefix:
  assumes "0 < n"
  shows "limit xs (Some n) = Inr (take (min (nat n) (length xs)) xs)"
  using assms by (simp add: limit_def exhaust_positive min_def)

theorem limit_positive_is_prefix_witness:
  "(0::int) < 5 \<and> limit [10, 20 :: int] (Some 5) = Inr [10, 20]"
  using limit_positive_is_prefix [of 5 "[10, 20 :: int]"] by simp

text \<open>
  C10. With \<^verbatim>\<open>n\<close> negative, \<^verbatim>\<open>limit\<close> yields nothing and returns normally, whatever its
  input.
\<close>

theorem limit_negative_is_empty:
  assumes "n < 0"
  shows "limit xs (Some n) = Inr []"
  using assms by (simp add: limit_def exhaust_negative)

theorem limit_negative_is_empty_witness:
  "(- 1 :: int) < 0 \<and> limit [10, 20, 30 :: int] (Some (- 1)) = Inr []"
  using limit_negative_is_empty [of "- 1" "[10, 20, 30 :: int]"] by simp

text \<open>
  C2, as claimed, fails: the claim has the elements past position \<^verbatim>\<open>n\<close> never pulled, even
  when the caller exhausts the output. The loop of \<^verbatim>\<open>limit\<close> has no exit: a caller that
  exhausts \<^verbatim>\<open>limit(iterator, 2)\<close> over five elements receives the first two, and the
  generator ends with its counter at 5 and nothing left in the input, not with the
  counter at 2 and the last three elements still there.
\<close>

theorem limit_stops_pulling_counterexample:
  "exhaust (Some 2) 0 [10, 20, 30, 40, 50 :: int] = Inr ([10, 20], 5, []) \<and>
   exhaust (Some 2) 0 [10, 20, 30, 40, 50 :: int] \<noteq> Inr ([10, 20], 2, [30, 40, 50])"
  by (simp add: exhaust_positive)

text \<open>
  C2, amended. With \<^verbatim>\<open>n\<close> positive, \<^verbatim>\<open>limit\<close> pulls one element of its input for each
  element it yields up to the \<^verbatim>\<open>n\<close>-th: a caller that takes \<open>k \<le> n\<close> elements and stops
  receives the first \<open>k\<close> (all of them when the input is shorter) and leaves the rest of
  the input unconsumed. A caller that exhausts the output receives the first \<^verbatim>\<open>n\<close>
  elements and leaves the input fully consumed: past the \<^verbatim>\<open>n\<close>-th element \<^verbatim>\<open>limit\<close> pulls
  and discards every remaining one.
\<close>

theorem limit_pulls_on_demand_then_drains:
  assumes "0 < n" and "int k \<le> n"
  shows "request k (Some n) 0 xs = Inr (take k xs, int (min k (length xs)), drop k xs) \<and>
         exhaust (Some n) 0 xs = Inr (take (nat n) xs, int (length xs), [])"
  using assms by (simp add: request_within_limit exhaust_positive)

theorem limit_pulls_on_demand_then_drains_witness:
  "(0::int) < 2 \<and> int 2 \<le> 2 \<and>
   request 2 (Some 2) 0 [10, 20, 30, 40, 50 :: int] = Inr ([10, 20], 2, [30, 40, 50]) \<and>
   exhaust (Some 2) 0 [10, 20, 30, 40, 50 :: int] = Inr ([10, 20], 5, [])"
  using limit_pulls_on_demand_then_drains [of 2 2 "[10, 20, 30, 40, 50 :: int]"] by simp

end
